theory Spec2Isabelle
  imports Complex_Main "HOL-Library.AList" "HOL-Library.List_Lexorder" "HOL-Library.Product_Lexorder"
begin

section \<open>Python values used by build\_meta.py\<close>

text \<open>
  A Python \<open>str\<close> is a sequence of Unicode code points, so it is modelled as a list of
  natural numbers: \<open>len\<close> is \<open>length\<close>, comparison of strings is the lexicographic
  order on code points, and \<open>+\<close> is \<open>@\<close>. ASCII literals of the source are written
  \<open>u ''...''\<close>; other code points are written as numbers.
\<close>

type_synonym ustr = "nat list"

definition u :: "string \<Rightarrow> ustr" where
  "u s = map of_char s"

subsection \<open>Floats\<close>

text \<open>
  A Python \<open>float\<close> is an IEEE 754 binary64 number: a finite value (a rational \<open>q\<close>,
  \<open>Finite 0\<close> being \<open>+0.0\<close>), the negative zero, an infinity or a NaN. Every arithmetic
  operation rounds its exact result to the nearest binary64 number, a tie going to the
  even significand. A finite value that an operation returns is a binary64 number; the
  constructor \<open>Finite\<close> itself accepts any rational.
\<close>

datatype float64 = Finite rat | NegZero | PosInf | NegInf | NaN








fun is_zero :: "float64 \<Rightarrow> bool" where
  "is_zero (Finite q) = (q = 0)"
| "is_zero NegZero = True"
| "is_zero PosInf = False"
| "is_zero NegInf = False"
| "is_zero NaN = False"








subsection \<open>JSON scalars\<close>

text \<open>
  The scalar JSON values a field of a parsed document can hold. A JSON number without
  fraction or exponent is a Python \<open>int\<close> of any size, any other number is a \<open>float\<close>;
  \<open>json.loads\<close> also reads \<open>NaN\<close>, \<open>Infinity\<close> and \<open>-Infinity\<close>.
\<close>

datatype jval = JNull | JBool bool | JInt int | JFloat float64 | JStr ustr


text \<open>Truth value of a Python object, as \<open>if x:\<close> and \<open>x or y\<close> test it.\<close>

fun truthy :: "jval \<Rightarrow> bool" where
  "truthy JNull = False"
| "truthy (JBool b) = b"
| "truthy (JInt n) = (n \<noteq> 0)"
| "truthy (JFloat x) = (\<not> is_zero x)"
| "truthy (JStr s) = (s \<noteq> [])"

text \<open>
  A field that holds a string or is missing (\<open>dict.get\<close> gives \<open>None\<close> for a missing key
  and for a JSON null alike) is a \<open>ustr option\<close>.
\<close>

fun truthy_str :: "ustr option \<Rightarrow> bool" where
  "truthy_str None = False"
| "truthy_str (Some s) = (s \<noteq> [])"

text \<open>\<open>x or ""\<close> for such a field.\<close>

fun or_empty :: "ustr option \<Rightarrow> ustr" where
  "or_empty None = []"
| "or_empty (Some s) = s"



subsection \<open>True division and multiplication\<close>






subsection \<open>String methods and the regular expressions of the source\<close>

text \<open>
  Whitespace as \<open>str.strip()\<close> and the pattern \<open>\s\<close> on a \<open>str\<close> see it: the code points
  U+0009..U+000D, U+001C..U+0020, U+0085, U+00A0, U+1680, U+2000..U+200A, U+2028, U+2029,
  U+202F, U+205F and U+3000.
\<close>

definition py_isspace :: "nat \<Rightarrow> bool" where
  "py_isspace c =
     ((9 \<le> c \<and> c \<le> 13) \<or> (28 \<le> c \<and> c \<le> 32) \<or> c = 133 \<or> c = 160 \<or> c = 5760 \<or>
      (8192 \<le> c \<and> c \<le> 8202) \<or> c = 8232 \<or> c = 8233 \<or> c = 8239 \<or> c = 8287 \<or> c = 12288)"

text \<open>\<open>s.strip()\<close> and \<open>s.strip("-")\<close>: remove the characters from both ends.\<close>

definition strip_chars :: "(nat \<Rightarrow> bool) \<Rightarrow> ustr \<Rightarrow> ustr" where
  "strip_chars P s = rev (dropWhile P (rev (dropWhile P s)))"

definition py_strip :: "ustr \<Rightarrow> ustr" where
  "py_strip s = strip_chars py_isspace s"

text \<open>
  \<open>re.sub(r"C+", rep, s)\<close> for a character class \<open>C\<close>: every maximal run of characters of
  the class is replaced by \<open>rep\<close>.
\<close>

function re_sub_runs :: "(nat \<Rightarrow> bool) \<Rightarrow> ustr \<Rightarrow> ustr \<Rightarrow> ustr" where
  "re_sub_runs P rep [] = []"
| "re_sub_runs P rep (c # cs) =
     (if P c then rep @ re_sub_runs P rep (dropWhile P cs) else c # re_sub_runs P rep cs)"
  by pat_completeness auto
termination
  by (relation "measure (\<lambda>(P, rep, s). length s)") (auto simp: length_dropWhile_le le_imp_less_Suc)

text \<open>\<open>s.startswith(p)\<close> and the substring test \<open>kw in t\<close>.\<close>

fun startswith :: "ustr \<Rightarrow> ustr \<Rightarrow> bool" where
  "startswith s [] = True"
| "startswith [] (p # ps) = False"
| "startswith (c # cs) (p # ps) = (if c = p then startswith cs ps else False)"

fun py_in :: "ustr \<Rightarrow> ustr \<Rightarrow> bool" where
  "py_in kw [] = (kw = [])"
| "py_in kw (c # cs) = (if startswith (c # cs) kw then True else py_in kw cs)"

text \<open>\<open>str(n)\<close> for an \<open>int\<close>: its decimal digits.\<close>

fun digits :: "nat \<Rightarrow> ustr" where
  "digits n = (if n < 10 then [48 + n] else digits (n div 10) @ [48 + n mod 10])"

declare digits.simps [simp del]

definition int_str :: "int \<Rightarrow> ustr" where
  "int_str i = (if i < 0 then 45 # digits (nat (- i)) else digits (nat i))"

subsection \<open>Library tables\<close>

text \<open>
  Library functions whose tables or algorithms are not part of the repository are
  parameters of the model: the SHA-1 hex digest of a string's UTF-8 encoding, \<open>str\<close> of a
  float, \<open>unicodedata.normalize("NFKD", s)\<close>, \<open>unicodedata.combining(ch)\<close>, and the three
  tables of the Unicode database that \<open>str.lower()\<close> reads: the full lower-case mapping
  of a code point and the properties Cased and Case\_Ignorable.
\<close>

record pylib =
  sha1_hexdigest :: "ustr \<Rightarrow> ustr"
  float_str :: "float64 \<Rightarrow> ustr"
  normalize_NFKD :: "ustr \<Rightarrow> ustr"
  combining :: "nat \<Rightarrow> nat"
  lower_full :: "nat \<Rightarrow> ustr"
  cased :: "nat \<Rightarrow> bool"
  case_ignorable :: "nat \<Rightarrow> bool"

text \<open>
  \<open>s.lower()\<close>. Every code point is replaced by its full lower-case mapping, except
  U+03A3 (capital sigma), which becomes U+03C2 in final position and U+03C3 elsewhere. It
  is in final position when the nearest code point before it that is not case-ignorable
  exists and is cased, and the nearest one after it that is not case-ignorable does not
  exist or is not cased. \<open>pre\<close> is the text before the current position, nearest code
  point first.
\<close>

definition final_sigma :: "pylib \<Rightarrow> ustr \<Rightarrow> ustr \<Rightarrow> bool" where
  "final_sigma L pre post =
     (case dropWhile (case_ignorable L) pre of
        [] \<Rightarrow> False
      | c # cs \<Rightarrow>
          if cased L c
          then (case dropWhile (case_ignorable L) post of [] \<Rightarrow> True | d # ds \<Rightarrow> \<not> cased L d)
          else False)"

fun lower_from :: "pylib \<Rightarrow> ustr \<Rightarrow> ustr \<Rightarrow> ustr" where
  "lower_from L pre [] = []"
| "lower_from L pre (c # cs) =
     (if c = 931 then [if final_sigma L pre cs then 962 else 963] else lower_full L c)
     @ lower_from L (c # pre) cs"

definition py_lower :: "pylib \<Rightarrow> ustr \<Rightarrow> ustr" where
  "py_lower L s = lower_from L [] s"

text \<open>\<open>str(x)\<close> of a scalar.\<close>

fun py_str :: "pylib \<Rightarrow> jval \<Rightarrow> ustr" where
  "py_str L (JStr s) = s"
| "py_str L (JInt n) = int_str n"
| "py_str L (JFloat x) = float_str L x"
| "py_str L (JBool b) = (if b then u ''True'' else u ''False'')"
| "py_str L JNull = u ''None''"

section \<open>Records of the input documents\<close>

record review =
  platform :: "ustr option"
  review_id :: jval
  author_name :: "ustr option"
  rating_value :: jval
  rating_scale :: jval
  date_published :: "ustr option"
  date_raw :: "ustr option"
  review_text :: "ustr option"
  source_url :: "ustr option"
  sentiment_label :: "ustr option"
  sentiment_score :: jval

section \<open>Identity keyer and record normalizer\<close>

definition norm_platform :: "pylib \<Rightarrow> ustr option \<Rightarrow> ustr" where
  "norm_platform L p =
     (if \<not> truthy_str p then u ''Other''
      else let x = py_lower L (or_empty p) in
        if py_in (u ''google'') x then u ''Google Maps''
        else if py_in (u ''firmy'') x then u ''Firmy.cz''
        else if py_in (u ''facebook'') x then u ''Facebook''
        else u ''Other'')"

text \<open>\<open>norm_text\<close>: \<open>re.sub(r"\s+", " ", (t or "").strip()).lower()\<close>.\<close>

definition norm_text :: "pylib \<Rightarrow> ustr \<Rightarrow> ustr" where
  "norm_text L t = py_lower L (re_sub_runs py_isspace [32] (py_strip t))"

definition review_dedupe_key :: "pylib \<Rightarrow> review \<Rightarrow> ustr" where
  "review_dedupe_key L r =
     (let plat = norm_platform L (platform r) in
      if truthy (review_id r) then plat @ u ''|rid:'' @ py_str L (review_id r)
      else
        let author = norm_text L (or_empty (author_name r));
            dp = or_empty (date_published r);
            dr = or_empty (date_raw r);
            rv = (if rating_value r = JNull then [] else py_str L (rating_value r));
            rs = (if rating_scale r = JNull then [] else py_str L (rating_scale r));
            txt = norm_text L (or_empty (review_text r));
            url = norm_text L (or_empty (source_url r));
            h = (if txt \<noteq> [] then sha1_hexdigest L txt else u ''no_text'');
            uh = (if url \<noteq> [] then sha1_hexdigest L url else u ''no_url'')
        in plat @ u ''|a:'' @ author @ u ''|dp:'' @ dp @ u ''|dr:'' @ dr @ u ''|r:'' @ rv
             @ u ''/'' @ rs @ u ''|t:'' @ h @ u ''|u:'' @ uh)"

text \<open>\<open>completeness_score\<close>: the counter \<open>s\<close> is threaded through the six tests.\<close>

definition completeness_score :: "review \<Rightarrow> int" where
  "completeness_score r =
     (let s = 0;
          s = (if truthy (review_id r) then s + 4 else s);
          s = (if truthy_str (date_published r) then s + 2 else s);
          s = (if rating_value r \<noteq> JNull \<and> rating_scale r \<noteq> JNull then s + 2 else s);
          s = (if py_strip (or_empty (review_text r)) \<noteq> [] then s + 2 else s);
          s = (if truthy_str (author_name r) then s + 1 else s);
          s = (if truthy_str (source_url r) then s + 1 else s)
      in s)"

definition normalize_review :: "pylib \<Rightarrow> review \<Rightarrow> review" where
  "normalize_review L r = r\<lparr>platform := Some (norm_platform L (platform r))\<rparr>"

section \<open>Documents, offices and firms\<close>

text \<open>
  The records of an input document. A collection that is missing or null is the empty
  list (\<open>f.get("offices", []) or []\<close>). A dataset is the pair of its origin name and
  its firms (\<open>ds.get("firms", []) or []\<close>).
\<close>

record profile =
  pp_platform :: "ustr option"
  pp_source_url :: "ustr option"

record office =
  city :: "ustr option"
  address :: "ustr option"
  platform_profiles :: "profile list"
  reviews :: "review list"

record firm =
  firm_name :: "ustr option"
  website :: "ustr option"
  firm_id :: "ustr option"
  offices :: "office list"

type_synonym dataset = "ustr \<times> firm list"

definition firm_key :: "pylib \<Rightarrow> firm \<Rightarrow> ustr" where
  "firm_key L f =
     (let w = py_lower L (py_strip (or_empty (website f))) in
      if w \<noteq> [] then u ''w:'' @ w
      else
        let n = re_sub_runs py_isspace [32] (py_lower L (py_strip (or_empty (firm_name f))))
        in u ''n:'' @ n)"

definition office_key :: "pylib \<Rightarrow> office \<Rightarrow> ustr" where
  "office_key L ofc =
     (let cty = py_lower L (py_strip (or_empty (city ofc)));
          addr = py_lower L (py_strip (or_empty (address ofc)))
      in if cty \<noteq> [] \<and> addr \<noteq> [] then cty @ u ''|'' @ addr
         else if cty \<noteq> [] then cty
         else if addr \<noteq> [] then u ''addr:'' @ addr
         else u ''unknown'')"

definition normalize_profile :: "pylib \<Rightarrow> profile \<Rightarrow> profile" where
  "normalize_profile L p =
     \<lparr>pp_platform = Some (norm_platform L (pp_platform p)), pp_source_url = pp_source_url p\<rparr>"

subsection \<open>Slugs\<close>

definition is_ascii_alnum :: "nat \<Rightarrow> bool" where
  "is_ascii_alnum c = ((48 \<le> c \<and> c \<le> 57) \<or> (65 \<le> c \<and> c \<le> 90) \<or> (97 \<le> c \<and> c \<le> 122))"

text \<open>\<open>re.sub(r"-{2,}", "-", s)\<close>: a run of two or more hyphens becomes one hyphen.\<close>

function sub_hyphen_runs :: "ustr \<Rightarrow> ustr" where
  "sub_hyphen_runs [] = []"
| "sub_hyphen_runs [c] = [c]"
| "sub_hyphen_runs (c # d # cs) =
     (if c = 45 \<and> d = 45 then 45 # sub_hyphen_runs (dropWhile (\<lambda>x. x = 45) cs)
      else c # sub_hyphen_runs (d # cs))"
  by pat_completeness auto
termination
  by (relation "measure length") (auto simp: length_dropWhile_le le_imp_less_Suc less_Suc_eq_le le_SucI)

definition slugify :: "pylib \<Rightarrow> ustr \<Rightarrow> ustr" where
  "slugify L s =
     (let s = normalize_NFKD L s;
          s = filter (\<lambda>ch. combining L ch = 0) s;
          s = py_lower L (strip_chars (\<lambda>c. c = 45)
                (re_sub_runs (\<lambda>c. \<not> is_ascii_alnum c) [45] s));
          s = sub_hyphen_runs s
      in if s \<noteq> [] then s else u ''unknown'')"

text \<open>\<open>re.sub(r"^https?://", "", w).split("/")[0]\<close>.\<close>

definition website_host :: "ustr \<Rightarrow> ustr" where
  "website_host w =
     takeWhile (\<lambda>c. c \<noteq> 47)
       (if startswith w (u ''https://'') then drop 8 w
        else if startswith w (u ''http://'') then drop 7 w
        else w)"

section \<open>Merge engine\<close>

text \<open>
  The index that \<open>merge_datasets\<close> builds. A Python \<open>dict\<close> keeps its keys in insertion
  order and an assignment to a key that is present leaves it in place, so a dictionary
  is an association list read with \<open>map_of\<close> and written with \<open>AList.update\<close>. The set
  \<open>firm_ids\<close> is a list without repetition. The source mutates the entries \<open>mf\<close> and
  \<open>mo\<close> in place after looking them up; the model computes the new entry and writes it
  back under its key.
\<close>

record moffice =
  mo_city :: "ustr option"
  mo_address :: "ustr option"
  mo_platform_profiles :: "profile list"
  reviews_map :: "(ustr \<times> review) list"

record mfirm =
  mf_firm_name :: "ustr option"
  mf_website :: "ustr option"
  firm_ids :: "ustr list"
  mf_offices :: "(ustr \<times> moffice) list"

text \<open>
  One pass of the review loop: \<open>if k not in reviews_map or completeness_score(nr) >
  completeness_score(reviews_map[k]): reviews_map[k] = nr\<close>.
\<close>

definition merge_review :: "pylib \<Rightarrow> (ustr \<times> review) list \<Rightarrow> review \<Rightarrow> (ustr \<times> review) list" where
  "merge_review L rm r =
     (let nr = normalize_review L r; k = review_dedupe_key L nr in
      case map_of rm k of
        None \<Rightarrow> AList.update k nr rm
      | Some old \<Rightarrow>
          if completeness_score nr > completeness_score old then AList.update k nr rm
          else rm)"

definition merge_office :: "pylib \<Rightarrow> (ustr \<times> moffice) list \<Rightarrow> office \<Rightarrow> (ustr \<times> moffice) list" where
  "merge_office L offs ofc =
     (let ok = office_key L ofc;
          mo = (case map_of offs ok of
                  None \<Rightarrow> \<lparr>mo_city = city ofc, mo_address = address ofc,
                            mo_platform_profiles = [], reviews_map = []\<rparr>
                | Some m \<Rightarrow> m);
          mo = (if \<not> truthy_str (mo_city mo) \<and> truthy_str (city ofc)
                then mo\<lparr>mo_city := city ofc\<rparr> else mo);
          mo = (if \<not> truthy_str (mo_address mo) \<and> truthy_str (address ofc)
                then mo\<lparr>mo_address := address ofc\<rparr> else mo);
          mo = mo\<lparr>mo_platform_profiles := mo_platform_profiles mo
                 @ filter (\<lambda>npp. truthy_str (pp_source_url npp))
                     (map (normalize_profile L) (platform_profiles ofc))\<rparr>;
          mo = mo\<lparr>reviews_map := fold (\<lambda>r rm. merge_review L rm r) (reviews ofc) (reviews_map mo)\<rparr>
      in AList.update ok mo offs)"

definition merge_firm :: "pylib \<Rightarrow> (ustr \<times> mfirm) list \<Rightarrow> firm \<Rightarrow> (ustr \<times> mfirm) list" where
  "merge_firm L fm f =
     (let fk = firm_key L f;
          mf = (case map_of fm fk of
                  None \<Rightarrow> \<lparr>mf_firm_name = firm_name f, mf_website = website f,
                            firm_ids = (if truthy_str (firm_id f) then [or_empty (firm_id f)] else []),
                            mf_offices = []\<rparr>
                | Some m \<Rightarrow> m);
          mf = (if truthy_str (firm_name f)
                   \<and> (\<not> truthy_str (mf_firm_name mf)
                       \<or> length (or_empty (firm_name f)) > length (or_empty (mf_firm_name mf)))
                then mf\<lparr>mf_firm_name := firm_name f\<rparr> else mf);
          mf = (if \<not> truthy_str (mf_website mf) \<and> truthy_str (website f)
                then mf\<lparr>mf_website := website f\<rparr> else mf);
          mf = (if truthy_str (firm_id f)
                then mf\<lparr>firm_ids := List.insert (or_empty (firm_id f)) (firm_ids mf)\<rparr> else mf);
          mf = mf\<lparr>mf_offices := fold (\<lambda>ofc offs. merge_office L offs ofc) (offices f) (mf_offices mf)\<rparr>
      in AList.update fk mf fm)"

definition merge_index :: "pylib \<Rightarrow> dataset list \<Rightarrow> (ustr \<times> mfirm) list" where
  "merge_index L datasets =
     fold (\<lambda>(src_name, firms) fm. fold (\<lambda>f fm. merge_firm L fm f) firms fm) datasets []"

section \<open>Dataset finalizer\<close>

record office_obj =
  out_city :: "ustr option"
  out_address :: "ustr option"
  out_platform_profiles :: "profile list option"
  out_reviews :: "review list"

record collection_summary =
  reviews_collected_total :: nat
  platforms_used :: "ustr list"
  cities_covered :: "ustr list"
  warnings :: "ustr list option"

record firm_obj =
  fo_firm_id :: ustr
  fo_firm_name :: "ustr option"
  fo_offices :: "office_obj list"
  fo_collection_summary :: collection_summary
  fo_website :: "ustr option"

record dataset_quality =
  firms_collected :: nat
  reviews_collected :: nat
  firms_below_min_reviews :: "ustr list"
  known_limitations :: "ustr list"

definition REVIEWS_PER_FIRM_MIN :: nat where
  "REVIEWS_PER_FIRM_MIN = 10"

text \<open>The loop over \<open>o["platform_profiles"]\<close> with its set \<open>seen_pp\<close>.\<close>

definition dedupe_profiles :: "profile list \<Rightarrow> profile list" where
  "dedupe_profiles ps =
     snd (fold (\<lambda>pp (seen, pps).
            if (pp_platform pp, pp_source_url pp) \<in> set seen then (seen, pps)
            else if truthy_str (pp_source_url pp)
              then (seen @ [(pp_platform pp, pp_source_url pp)], pps @ [pp])
              else (seen, pps))
          ps ([], []))"

definition finalize_office :: "moffice \<Rightarrow> office_obj" where
  "finalize_office ofc =
     (let pps = dedupe_profiles (mo_platform_profiles ofc);
          rs = map snd (reviews_map ofc)
      in \<lparr>out_city = (if truthy_str (mo_city ofc) then mo_city ofc else None),
          out_address = (if truthy_str (mo_address ofc) then mo_address ofc else None),
          out_platform_profiles = (if pps \<noteq> [] then Some pps else None),
          out_reviews = rs\<rparr>)"

definition finalize_firm :: "pylib \<Rightarrow> ustr \<times> mfirm \<Rightarrow> firm_obj" where
  "finalize_firm L kf =
     (let f = snd kf;
          base = (if truthy_str (mf_website f)
                  then slugify L (website_host (or_empty (mf_website f)))
                  else slugify L (if truthy_str (mf_firm_name f)
                                  then or_empty (mf_firm_name f) else u ''unknown''));
          fid_candidates = filter (\<lambda>x. x \<noteq> []) (firm_ids f);
          fid = (if fid_candidates \<noteq> []
                 then hd (sort_key (\<lambda>x. (length x, x)) fid_candidates) else base);
          os = map snd (mf_offices f);
          offices_out = map finalize_office os;
          rs = concat (map (\<lambda>ofc. map snd (reviews_map ofc)) os);
          reviews_total = sum_list (map (\<lambda>ofc. length (map snd (reviews_map ofc))) os);
          pls = map (\<lambda>r. or_empty (platform r)) (filter (\<lambda>r. truthy_str (platform r)) rs);
          cts = map (\<lambda>ofc. or_empty (mo_city ofc)) (filter (\<lambda>ofc. truthy_str (mo_city ofc)) os);
          summary = \<lparr>reviews_collected_total = reviews_total,
                     platforms_used = sort (remdups pls),
                     cities_covered = sort (remdups cts),
                     warnings = (if reviews_total = 0
                                 then Some [u ''No reviews present in merged sources.'']
                                 else None)\<rparr>
      in \<lparr>fo_firm_id = fid, fo_firm_name = mf_firm_name f, fo_offices = offices_out,
          fo_collection_summary = summary,
          fo_website = (if truthy_str (mf_website f) then mf_website f else None)\<rparr>)"

definition merge_datasets :: "pylib \<Rightarrow> dataset list \<Rightarrow> firm_obj list \<times> dataset_quality" where
  "merge_datasets L datasets =
     (let merged_firms = map (finalize_firm L) (merge_index L datasets);
          quality =
            \<lparr>firms_collected = length merged_firms,
             reviews_collected =
               sum_list (map (\<lambda>x. reviews_collected_total (fo_collection_summary x)) merged_firms),
             firms_below_min_reviews =
               map fo_firm_id
                 (filter (\<lambda>x. reviews_collected_total (fo_collection_summary x)
                               < REVIEWS_PER_FIRM_MIN) merged_firms),
             known_limitations =
               [u ''Merged from provided JSON sources; public review availability varies widely by firm.'']\<rparr>
      in (merged_firms, quality))"

section \<open>Theme classifier\<close>

text \<open>
  \<open>TAX\<close>: the keyword taxonomy, a dictionary literal, kept as the list of its items in
  declaration order (the order a Python \<open>dict\<close> iterates in). Keywords with letters
  outside ASCII spell those letters as code points: U+00E1 (a acute) is 225, U+00E9
  (e acute) 233, U+00ED (i acute) 237, U+00F3 (o acute) 243, U+011B (e caron) 283,
  U+0159 (r caron) 345, U+0161 (s caron) 353 and U+017E (z caron) 382.
\<close>

definition TAX :: "(ustr \<times> ustr list) list" where
  "TAX =
    [(u ''communication_responsiveness'',
        [u ''komunik'', u ''neodpov'', u ''email'', u ''telefon'', u ''call'', u ''reply'',
         u ''respond'', u ''dovolat'']),
     (u ''professionalism_competence'',
        [u ''profesion'', u ''expert'', u ''kvalit'', u ''professionals'', u ''excellent'',
         u ''brilliant'', u ''neprofesion'', u ''lajd'']),
     (u ''ethics_trust'',
        [u ''etika'', u ''ethic'', u ''nef'' @ [233] @ u ''r'', u ''podvod'',
         u ''l'' @ [382] @ u ''i'', u ''lies'', u ''slander'', u ''dirty'',
         u ''zneu'' @ [382], u ''zatajuj'', u ''neseri'' @ [243] @ u ''z'',
         u ''without ethics'']),
     (u ''fees_value_transparency'',
        [u ''cena'', u ''n'' @ [225] @ u ''klad'', u ''cost'', u ''fees'', u ''price'',
         u ''z'' @ [225] @ u ''loha'', u ''prachy'', u ''pen'' @ [237] @ u ''ze'', u ''value'',
         u ''finance'', u ''majetek'']),
     (u ''speed_timeliness'',
        [u ''rychl'', u ''fast'', u ''delay'', u ''zpo'' @ [382] @ u ''d'', u ''roky'',
         u ''late'', u ''pozd'', u ''nikam se nepohnul'']),
     (u ''outcome_effectiveness'',
        [u ''vy'' @ [345] @ u ''e'' @ [353], u ''solution'', u ''help'', u ''pomoc'',
         u ''nepomoh'', u ''result'', u ''success'', u ''spravedlnost'', u ''pokrok'']),
     (u ''empathy_human_approach'',
        [u ''p'' @ [345, 237] @ u ''stup'', u ''human'', u ''arrog'', u ''arogant'',
         u ''poni'' @ [382], u ''zesm'' @ [283, 353], u ''unpleasant'', u ''reception'']),
     (u ''enforcement_debt_mass_mail'',
        [u ''dluh'', u ''vym'' @ [225] @ u ''h'', u ''exekuc'', u ''pojist'',
         u ''p'' @ [345] @ u ''ed'' @ [382] @ u ''alob'', u ''automatiz'', u ''picrights'',
         u ''copyright'', u ''mass'', u ''threat''])]"

text \<open>
  \<open>categorize\<close>: the loop over \<open>TAX.items()\<close> appends every category with a matching
  keyword; \<open>out[:3]\<close> keeps the first three.
\<close>

definition matches :: "pylib \<Rightarrow> ustr \<Rightarrow> ustr list \<Rightarrow> bool" where
  "matches L t kws = list_ex (\<lambda>kw. py_in (py_lower L kw) t) kws"

definition categorize :: "pylib \<Rightarrow> ustr \<Rightarrow> ustr list" where
  "categorize L txt =
     (let t = norm_text L txt in
      if t = [] then []
      else take 3 (map fst (filter (\<lambda>(cat, kws). matches L t kws) TAX)))"

section \<open>Analysis: rating conversion\<close>


section \<open>Example inputs\<close>

text \<open>The review \<open>{}\<close> with no field at all, and a review with every scored field.\<close>

definition empty_review :: review where
  "empty_review =
     \<lparr>platform = None, review_id = JNull, author_name = None, rating_value = JNull,
      rating_scale = JNull, date_published = None, date_raw = None, review_text = None,
      source_url = None, sentiment_label = None, sentiment_score = JNull\<rparr>"

definition full_review :: review where
  "full_review =
     empty_review\<lparr>platform := Some (u ''google''), review_id := JStr (u ''r9''),
       author_name := Some (u ''Jan''), rating_value := JInt 4, rating_scale := JInt 5,
       date_published := Some (u ''2024-01-05''), review_text := Some (u ''Great service''),
       source_url := Some (u ''https://maps.example/r9'')\<rparr>"

text \<open>
  The texts of the theming examples: \<open>arogantn\<close>, U+00ED, \<open> p\<close>, U+0159, U+00ED, \<open>stup\<close>,
  alone and after three words that match three earlier categories.
\<close>

definition txt_arogantni :: ustr where
  "txt_arogantni = u ''arogantn'' @ [237] @ u '' p'' @ [345, 237] @ u ''stup''"

definition txt_four_themes :: ustr where
  "txt_four_themes = u ''email expert cena '' @ txt_arogantni"

section \<open>Library tables on the Latin range\<close>

text \<open>
  The full lower-case mapping of the Unicode database on Basic Latin, Latin-1 Supplement
  and Latin Extended-A (U+0000..U+017F, which holds the Czech alphabet of the keyword
  tables); U+0130 maps to the two code points U+0069 U+0307. \<open>latin_tables L\<close> says that
  the library \<open>L\<close> has this mapping on that range; nothing is said about the rest of its
  tables.
\<close>

definition lower_cp :: "nat \<Rightarrow> ustr" where
  "lower_cp c =
     (if 65 \<le> c \<and> c \<le> 90 then [c + 32]
      else if 192 \<le> c \<and> c \<le> 222 \<and> c \<noteq> 215 then [c + 32]
      else if c = 304 then [105, 775]
      else if c = 376 then [255]
      else if (256 \<le> c \<and> c \<le> 303 \<or> 306 \<le> c \<and> c \<le> 311 \<or> 330 \<le> c \<and> c \<le> 375) \<and> even c
        then [c + 1]
      else if (313 \<le> c \<and> c \<le> 328 \<or> 377 \<le> c \<and> c \<le> 382) \<and> odd c then [c + 1]
      else [c])"

definition latin_tables :: "pylib \<Rightarrow> bool" where
  "latin_tables L = (\<forall>c<384. lower_full L c = lower_cp c)"

section \<open>The spec's wording of text normalization\<close>







text \<open>
  A library instance for the examples. Its lower-case mapping is \<open>lower_cp\<close>, and its NFKD
  decomposition and combining classes are those of Unicode on ASCII and on the letters of
  the Czech alphabet (acute U+0301, caron U+030C and ring U+030A, all of combining class
  230). The digest and the float printer are stand-ins that keep their argument visible,
  and so are the two properties read at a capital sigma, which no example contains.
\<close>

definition czech_decomp :: "nat \<Rightarrow> ustr" where
  "czech_decomp c =
     (case map_of
        [(225, [97, 769]), (269, [99, 780]), (271, [100, 780]), (233, [101, 769]),
         (283, [101, 780]), (237, [105, 769]), (328, [110, 780]), (243, [111, 769]),
         (345, [114, 780]), (353, [115, 780]), (357, [116, 780]), (250, [117, 769]),
         (367, [117, 778]), (253, [121, 769]), (382, [122, 780]),
         (193, [65, 769]), (268, [67, 780]), (270, [68, 780]), (201, [69, 769]),
         (282, [69, 780]), (205, [73, 769]), (327, [78, 780]), (211, [79, 769]),
         (344, [82, 780]), (352, [83, 780]), (356, [84, 780]), (218, [85, 769]),
         (366, [85, 778]), (221, [89, 769]), (381, [90, 780])] c of
        None \<Rightarrow> [c]
      | Some d \<Rightarrow> d)"

definition czech_lib :: pylib where
  "czech_lib =
     \<lparr>sha1_hexdigest = (\<lambda>s. u ''sha1:'' @ s),
      float_str = (\<lambda>x. u ''float''),
      normalize_NFKD = (\<lambda>s. concat (map czech_decomp s)),
      combining = (\<lambda>c. if c = 769 \<or> c = 780 \<or> c = 778 then 230 else 0),
      lower_full = lower_cp,
      cased = (\<lambda>c. False),
      case_ignorable = (\<lambda>c. False)\<rparr>"

section \<open>Completeness score\<close>

text \<open>
  Claim C3. The completeness score of a review is the sum of 4 for a present (truthy)
  external review id, 2 for a present published date, 2 when rating value and rating
  scale are both present (not \<open>None\<close>), 2 for a review text that is non-empty after
  trimming, 1 for a present author name and 1 for a present source url; it lies between
  0 and 12.
\<close>

theorem completeness_score_sum:
  "completeness_score r =
     (if truthy (review_id r) then 4 else 0)
   + (if truthy_str (date_published r) then 2 else 0)
   + (if rating_value r \<noteq> JNull \<and> rating_scale r \<noteq> JNull then 2 else 0)
   + (if py_strip (or_empty (review_text r)) \<noteq> [] then 2 else 0)
   + (if truthy_str (author_name r) then 1 else 0)
   + (if truthy_str (source_url r) then 1 else 0)
   \<and> 0 \<le> completeness_score r \<and> completeness_score r \<le> 12"
  by (simp add: completeness_score_def Let_def)

theorem completeness_score_sum_witness:
  "completeness_score full_review = 12 \<and> completeness_score empty_review = 0"
  using completeness_score_sum [of full_review] completeness_score_sum [of empty_review]
  by (simp add: full_review_def empty_review_def u_def py_strip_def strip_chars_def
      py_isspace_def)

section \<open>Rating conversion\<close>

subsection \<open>Evaluating binary64 arithmetic on numerals\<close>









subsection \<open>Rounding never turns a magnitude of 1 or more into zero\<close>







subsection \<open>The guard\<close>











section \<open>Substrings under trimming and substitution\<close>

lemma startswith_append: "startswith (w @ b) w"
  by (induction w) auto

lemma py_in_append: "py_in w (a @ w @ b)"
proof (induction a)
  case Nil
  show ?case
  proof (cases "w @ b")
    case Nil
    then show ?thesis by simp
  next
    case (Cons c cs)
    have "startswith (w @ b) w" by (rule startswith_append)
    with Cons show ?thesis by simp
  qed
next
  case (Cons x a)
  then show ?case by simp
qed

lemma startswith_decomp: "startswith t w \<Longrightarrow> \<exists>b. t = w @ b"
  by (induction t w rule: startswith.induct) (auto split: if_splits)

lemma py_in_decomp: "py_in w t \<Longrightarrow> \<exists>a b. t = a @ w @ b"
proof (induction t)
  case Nil
  then show ?case by simp
next
  case (Cons c cs)
  show ?case
  proof (cases "startswith (c # cs) w")
    case True
    then obtain b where "c # cs = w @ b" using startswith_decomp by blast
    then have "c # cs = [] @ w @ b" by simp
    then show ?thesis by blast
  next
    case False
    with Cons.prems have "py_in w cs" by simp
    then obtain a b where "cs = a @ w @ b" using Cons.IH by blast
    then have "c # cs = (c # a) @ w @ b" by simp
    then show ?thesis by blast
  qed
qed

lemma dropWhile_mid:
  assumes "w \<noteq> []" "\<not> P (hd w)"
  shows "\<exists>a'. dropWhile P (a @ w @ b) = a' @ w @ b"
proof (induction a)
  case Nil
  from assms have "dropWhile P (w @ b) = w @ b"
    by (cases w) auto
  then have "dropWhile P ([] @ w @ b) = [] @ w @ b" by simp
  then show ?case by blast
next
  case (Cons x a)
  then obtain a' where a': "dropWhile P (a @ w @ b) = a' @ w @ b" by blast
  show ?case
  proof (cases "P x")
    case True
    with a' show ?thesis by auto
  next
    case False
    then have "dropWhile P ((x # a) @ w @ b) = (x # a) @ w @ b" by simp
    then show ?thesis by blast
  qed
qed

lemma strip_mid:
  assumes "w \<noteq> []" "\<not> P (hd w)" "\<not> P (last w)"
  shows "\<exists>a' b'. strip_chars P (a @ w @ b) = a' @ w @ b'"
proof -
  obtain a' where 1: "dropWhile P (a @ w @ b) = a' @ w @ b"
    using dropWhile_mid [of w P a b] assms(1,2) by blast
  have rw: "rev w \<noteq> []" "\<not> P (hd (rev w))"
    using assms by (simp_all add: hd_rev)
  obtain b' where 2: "dropWhile P (rev b @ rev w @ rev a') = b' @ rev w @ rev a'"
    using dropWhile_mid [of "rev w" P "rev b" "rev a'"] rw by blast
  have "strip_chars P (a @ w @ b) = a' @ w @ rev b'"
    using 1 2 by (simp add: strip_chars_def)
  then show ?thesis by blast
qed

lemma runs_nonP:
  "\<forall>c\<in>set w. \<not> P c \<Longrightarrow> re_sub_runs P rep (w @ b) = w @ re_sub_runs P rep b"
  by (induction w) auto

lemma runs_mid:
  assumes "w \<noteq> []" "\<forall>c\<in>set w. \<not> P c"
  shows "\<exists>a' b'. re_sub_runs P rep (a @ w @ b) = a' @ w @ b'"
proof (induction a rule: length_induct)
  case (1 a)
  show ?case
  proof (cases a)
    case Nil
    have "re_sub_runs P rep ([] @ w @ b) = [] @ w @ re_sub_runs P rep b"
      using runs_nonP [of w P rep b] assms(2) by simp
    with Nil show ?thesis by blast
  next
    case (Cons x xs)
    show ?thesis
    proof (cases "P x")
      case False
      from 1 Cons obtain a' b' where "re_sub_runs P rep (xs @ w @ b) = a' @ w @ b'"
        by auto
      with False Cons have "re_sub_runs P rep (a @ w @ b) = (x # a') @ w @ b'" by simp
      then show ?thesis by blast
    next
      case True
      from assms have hw: "\<not> P (hd w)" by (cases w) auto
      have "\<exists>ys. dropWhile P (xs @ w @ b) = ys @ w @ b \<and> length ys \<le> length xs"
      proof (induction xs)
        case Nil
        from assms hw have "dropWhile P (w @ b) = w @ b" by (cases w) auto
        then show ?case by simp
      next
        case (Cons y ys)
        then show ?case
          by (cases "P y") (auto intro: exI [of _ "y # ys"] le_SucI)
      qed
      then obtain ys where ys: "dropWhile P (xs @ w @ b) = ys @ w @ b" "length ys \<le> length xs"
        by blast
      with 1 Cons obtain a' b' where "re_sub_runs P rep (ys @ w @ b) = a' @ w @ b'"
        by (metis le_imp_less_Suc length_Cons)
      with True Cons ys have "re_sub_runs P rep (a @ w @ b) = (rep @ a') @ w @ b'" by simp
      then show ?thesis by blast
    qed
  qed
qed

lemma re_sub_runs_set: "set (re_sub_runs P rep s) \<subseteq> set s \<union> set rep"
proof (induction P rep s rule: re_sub_runs.induct)
  case (1 P rep)
  then show ?case by simp
next
  case (2 P rep c cs)
  show ?case
  proof (cases "P c")
    case True
    with 2 have "set (re_sub_runs P rep (dropWhile P cs)) \<subseteq> set (dropWhile P cs) \<union> set rep"
      by simp
    moreover have "set (dropWhile P cs) \<subseteq> set cs" by (auto dest: set_dropWhileD)
    ultimately show ?thesis using True by auto
  next
    case False
    with 2 show ?thesis by auto
  qed
qed

lemma strip_chars_set: "set (strip_chars P s) \<subseteq> set s"
  by (auto simp: strip_chars_def dest!: set_dropWhileD)

section \<open>Lowercasing\<close>

text \<open>
  A stretch of text without a capital sigma is lowercased code point by code point,
  whatever surrounds it.
\<close>

lemma lower_from_plain:
  "931 \<notin> set w \<Longrightarrow>
     lower_from L pre (w @ b) = concat (map (lower_full L) w) @ lower_from L (rev w @ pre) b"
  by (induction w arbitrary: pre) auto

lemma lower_from_mid:
  "931 \<notin> set w \<Longrightarrow>
     \<exists>x y. lower_from L pre (a @ w @ b) = x @ concat (map (lower_full L) w) @ y"
proof (induction a arbitrary: pre)
  case Nil
  then have "lower_from L pre ([] @ w @ b)
      = [] @ concat (map (lower_full L) w) @ lower_from L (rev w @ pre) b"
    by (simp add: lower_from_plain)
  then show ?case by blast
next
  case (Cons c a)
  then obtain x y where "lower_from L (c # pre) (a @ w @ b) = x @ concat (map (lower_full L) w) @ y"
    by blast
  then have "lower_from L pre ((c # a) @ w @ b)
      = ((if c = 931 then [if final_sigma L pre (a @ w @ b) then 962 else 963] else lower_full L c) @ x)
        @ concat (map (lower_full L) w) @ y"
    by simp
  then show ?case by blast
qed

lemma py_lower_plain: "931 \<notin> set s \<Longrightarrow> py_lower L s = concat (map (lower_full L) s)"
  using lower_from_plain [of s L "[]" "[]"] by (simp add: py_lower_def)

lemma py_lower_mid:
  "931 \<notin> set w \<Longrightarrow> \<exists>x y. py_lower L (a @ w @ b) = x @ concat (map (lower_full L) w) @ y"
  unfolding py_lower_def by (rule lower_from_mid)

lemma latin_concat:
  "latin_tables L \<Longrightarrow> \<forall>c\<in>set s. c < 384 \<Longrightarrow> concat (map (lower_full L) s) = concat (map lower_cp s)"
  by (induction s) (auto simp: latin_tables_def)

lemma py_lower_latin:
  assumes "latin_tables L" "\<forall>c\<in>set s. c < 384"
  shows "py_lower L s = concat (map lower_cp s)"
proof -
  from assms(2) have "931 \<notin> set s" by auto
  then show ?thesis using latin_concat [OF assms] by (simp add: py_lower_plain)
qed

lemma latin_tables_czech_lib: "latin_tables czech_lib"
  by (simp add: latin_tables_def czech_lib_def)

lemma py_lower_czech_lib:
  "list_all (\<lambda>c. c \<noteq> 931) s \<Longrightarrow> py_lower czech_lib s = concat (map lower_cp s)"
proof -
  assume "list_all (\<lambda>c. c \<noteq> 931) s"
  then have "931 \<notin> set s" by (auto simp: list_all_iff)
  then have "py_lower czech_lib s = concat (map (lower_full czech_lib) s)"
    by (rule py_lower_plain)
  moreover have "lower_full czech_lib = lower_cp" by (simp add: czech_lib_def)
  ultimately show ?thesis by simp
qed

lemma norm_text_latin:
  assumes "latin_tables L" "\<forall>c\<in>set t. c < 384"
  shows "norm_text L t = norm_text czech_lib t"
proof -
  let ?s = "re_sub_runs py_isspace [32] (py_strip t)"
  have "set ?s \<subseteq> set t \<union> {32}"
    using re_sub_runs_set [of py_isspace "[32]" "py_strip t"] strip_chars_set [of py_isspace t]
    by (auto simp: py_strip_def)
  with assms(2) have "\<forall>c\<in>set ?s. c < 384" by auto
  then have "py_lower L ?s = concat (map lower_cp ?s)" "py_lower czech_lib ?s = concat (map lower_cp ?s)"
    using py_lower_latin assms(1) latin_tables_czech_lib by blast+
  then show ?thesis by (simp add: norm_text_def)
qed

lemma contains_norm_text:
  assumes "w \<noteq> []" "\<forall>c\<in>set w. \<not> py_isspace c" "931 \<notin> set w"
    and "concat (map (lower_full L) w) = w" "py_in w t"
  shows "py_in w (norm_text L t)"
proof -
  obtain a b where "t = a @ w @ b" using py_in_decomp [OF assms(5)] by blast
  moreover have "\<not> py_isspace (hd w)" "\<not> py_isspace (last w)"
    using assms(1,2) by simp_all
  ultimately obtain a1 b1 where "py_strip t = a1 @ w @ b1"
    using strip_mid [of w py_isspace a b] assms(1) unfolding py_strip_def by blast
  then obtain a2 b2 where "re_sub_runs py_isspace [32] (py_strip t) = a2 @ w @ b2"
    using runs_mid [of w py_isspace "[32]" a1 b1] assms(1,2) by auto
  moreover obtain x y where "py_lower L (a2 @ w @ b2) = x @ concat (map (lower_full L) w) @ y"
    using py_lower_mid [OF assms(3)] by blast
  ultimately have "norm_text L t = x @ w @ y"
    using assms(4) by (simp add: norm_text_def)
  then show ?thesis by (simp add: py_in_append)
qed

section \<open>Classification under a library with the Latin tables\<close>

lemma TAX_latin: "\<forall>(cat, kws)\<in>set TAX. \<forall>kw\<in>set kws. \<forall>c\<in>set kw. c < 384"
  by (simp add: TAX_def u_def)

lemma matches_latin:
  assumes "latin_tables L" "(cat, kws) \<in> set TAX"
  shows "matches L t kws = matches czech_lib t kws"
proof -
  have "py_lower L kw = py_lower czech_lib kw" if "kw \<in> set kws" for kw
  proof -
    from that assms(2) TAX_latin have "\<forall>c\<in>set kw. c < 384" by blast
    then show ?thesis
      using py_lower_latin assms(1) latin_tables_czech_lib by metis
  qed
  then show ?thesis by (simp add: matches_def list_ex_iff)
qed

lemma categorize_latin:
  assumes "latin_tables L" "\<forall>c\<in>set txt. c < 384"
  shows "categorize L txt = categorize czech_lib txt"
proof -
  have n: "norm_text L txt = norm_text czech_lib txt" using assms by (rule norm_text_latin)
  have "filter (\<lambda>(cat, kws). matches L t kws) TAX
      = filter (\<lambda>(cat, kws). matches czech_lib t kws) TAX" for t
    using matches_latin [OF assms(1)] by (intro filter_cong) auto
  with n show ?thesis by (simp add: categorize_def Let_def)
qed

lemmas categorize_eval =
  norm_text_def py_strip_def strip_chars_def py_isspace_def py_lower_czech_lib lower_cp_def u_def
  categorize_def matches_def TAX_def txt_arogantni_def txt_four_themes_def

section \<open>Theme classifier\<close>

lemma take_mid: "length xs < n \<Longrightarrow> e \<in> set (take n (xs @ e # ys))"
  by (induction xs arbitrary: n) (auto simp: take_Cons')

lemma matches_kw:
  "kw \<in> set kws \<Longrightarrow> py_lower L kw = kw \<Longrightarrow> py_in kw t \<Longrightarrow> matches L t kws"
  unfolding matches_def list_ex_iff by metis

lemma arogant_props:
  "u ''arogant'' \<noteq> []" "\<forall>c\<in>set (u ''arogant''). \<not> py_isspace c"
  "\<forall>c\<in>set (u ''arogant''). c < 384"
  "concat (map lower_cp (u ''arogant'')) = u ''arogant''"
  "\<exists>rest. txt_arogantni = u ''arogant'' @ rest"
  by (simp_all add: u_def py_isspace_def lower_cp_def txt_arogantni_def)

lemma TAX_split:
  "\<exists>kws rest. drop 6 TAX = (u ''empathy_human_approach'', kws) # rest \<and> u ''arogant'' \<in> set kws
     \<and> u ''empathy_human_approach'' \<notin> set (map fst rest)"
  by (simp add: TAX_def u_def)

lemma TAX_earlier: "u ''empathy_human_approach'' \<notin> set (map fst (take 6 TAX))"
  by (simp add: TAX_def u_def)

lemma categorize_arogantni:
  "categorize czech_lib txt_arogantni = [u ''empathy_human_approach'']"
  by (simp add: categorize_eval)

lemma categorize_na: "categorize czech_lib (u ''n/a'') = []"
  by (simp add: categorize_eval)

lemma categorize_four_themes:
  "categorize czech_lib txt_four_themes =
     [u ''communication_responsiveness'', u ''professionalism_competence'',
      u ''fees_value_transparency'']"
  by (simp add: categorize_eval)

lemma examples_latin:
  "\<forall>c\<in>set txt_arogantni. c < 384" "\<forall>c\<in>set (u ''n/a''). c < 384"
  "\<forall>c\<in>set txt_four_themes. c < 384"
  by (simp_all add: txt_arogantni_def txt_four_themes_def u_def)

lemma categorize_contains:
  assumes "latin_tables L" "py_in txt_arogantni txt"
  shows "u ''empathy_human_approach'' \<in> set (categorize L txt)
         \<longleftrightarrow> length (filter (\<lambda>(cat, kws). matches L (norm_text L txt) kws) (take 6 TAX)) < 3"
proof -
  let ?e = "u ''empathy_human_approach''"
  let ?t = "norm_text L txt"
  let ?Q = "\<lambda>(cat, kws). matches L ?t kws"
  let ?A = "map fst (filter ?Q (take 6 TAX))"
  have low: "concat (map (lower_full L) (u ''arogant'')) = u ''arogant''"
    using latin_concat [OF assms(1) arogant_props(3)] arogant_props(4) by simp
  have n931: "931 \<notin> set (u ''arogant'')" using arogant_props(3) by auto
  obtain a b where "txt = a @ txt_arogantni @ b"
    using py_in_decomp [OF assms(2)] by blast
  moreover obtain rest where "txt_arogantni = u ''arogant'' @ rest"
    using arogant_props(5) by blast
  ultimately have "txt = a @ u ''arogant'' @ (rest @ b)" by simp
  then have "py_in (u ''arogant'') txt" using py_in_append by metis
  then have inn: "py_in (u ''arogant'') ?t"
    using contains_norm_text [OF arogant_props(1,2) n931 low] by blast
  then have ne: "?t \<noteq> []" using arogant_props(1) by (cases ?t) auto
  obtain kws rest' where d: "drop 6 TAX = (?e, kws) # rest'"
    and k: "u ''arogant'' \<in> set kws" and r: "?e \<notin> set (map fst rest')"
    using TAX_split by blast
  have "py_lower L (u ''arogant'') = u ''arogant''"
    using py_lower_plain [OF n931] low by simp
  then have m: "matches L ?t kws" using matches_kw [OF k _ inn] by blast
  have "filter ?Q TAX = filter ?Q (take 6 TAX) @ filter ?Q (drop 6 TAX)"
    by (metis append_take_drop_id filter_append)
  with d m have names: "map fst (filter ?Q TAX) = ?A @ ?e # map fst (filter ?Q rest')"
    by simp
  have cat: "categorize L txt = take 3 (?A @ ?e # map fst (filter ?Q rest'))"
    using ne names by (simp add: categorize_def Let_def)
  show ?thesis
  proof
    assume "length (filter ?Q (take 6 TAX)) < 3"
    then have "length ?A < 3" by simp
    then show "?e \<in> set (categorize L txt)" unfolding cat by (rule take_mid)
  next
    assume mem: "?e \<in> set (categorize L txt)"
    show "length (filter ?Q (take 6 TAX)) < 3"
    proof (rule ccontr)
      assume "\<not> length (filter ?Q (take 6 TAX)) < 3"
      then have "3 \<le> length ?A" by simp
      then have "categorize L txt = take 3 ?A" unfolding cat by simp
      with mem have "?e \<in> set ?A" by (auto dest: in_set_takeD)
      then have "?e \<in> set (map fst (take 6 TAX))" by auto
      with TAX_earlier show False by blast
    qed
  qed
qed

text \<open>
  Claim C7, as amended. \<open>categorize\<close> returns the categories whose keywords match the
  normalized text, in the declaration order of \<open>TAX\<close>, cut to the first three, and
  returns nothing for a text that is empty after normalization. The text
  \<open>txt_arogantni\<close> classifies into \<open>empathy_human_approach\<close> and the text \<open>n/a\<close> into
  no category. A text that contains \<open>txt_arogantni\<close> classifies into
  \<open>empathy_human_approach\<close> if and only if fewer than three of the six categories
  declared before it match: with three earlier matches the truncation drops it, as for
  \<open>txt_four_themes\<close>. The library is any one whose lower-case mapping is Unicode's on
  U+0000..U+017F.
\<close>

theorem categorize_truncated:
  assumes "latin_tables L"
  shows "categorize L txt =
     (if norm_text L txt = [] then []
      else take 3 (map fst (filter (\<lambda>(cat, kws). matches L (norm_text L txt) kws) TAX)))
   \<and> length (categorize L txt) \<le> 3
   \<and> categorize L txt_arogantni = [u ''empathy_human_approach'']
   \<and> categorize L (u ''n/a'') = []
   \<and> categorize L txt_four_themes =
       [u ''communication_responsiveness'', u ''professionalism_competence'',
        u ''fees_value_transparency'']
   \<and> (py_in txt_arogantni txt \<longrightarrow>
        (u ''empathy_human_approach'' \<in> set (categorize L txt)
         \<longleftrightarrow> length (filter (\<lambda>(cat, kws). matches L (norm_text L txt) kws) (take 6 TAX)) < 3))"
proof -
  have 1: "categorize L txt =
     (if norm_text L txt = [] then []
      else take 3 (map fst (filter (\<lambda>(cat, kws). matches L (norm_text L txt) kws) TAX)))"
    by (simp add: categorize_def Let_def)
  have 2: "length (categorize L txt) \<le> 3" by (simp add: categorize_def Let_def)
  have 3: "categorize L txt_arogantni = [u ''empathy_human_approach'']"
    using categorize_latin [OF assms examples_latin(1)] categorize_arogantni by simp
  have 4: "categorize L (u ''n/a'') = []"
    using categorize_latin [OF assms examples_latin(2)] categorize_na by simp
  have 5: "categorize L txt_four_themes =
       [u ''communication_responsiveness'', u ''professionalism_competence'',
        u ''fees_value_transparency'']"
    using categorize_latin [OF assms examples_latin(3)] categorize_four_themes by simp
  have 6: "py_in txt_arogantni txt \<longrightarrow>
        (u ''empathy_human_approach'' \<in> set (categorize L txt)
         \<longleftrightarrow> length (filter (\<lambda>(cat, kws). matches L (norm_text L txt) kws) (take 6 TAX)) < 3)"
    using categorize_contains [OF assms] by blast
  show ?thesis by (intro conjI) (rule 1 2 3 4 5 6)+
qed

text \<open>
  The claim as stated fails at \<open>txt_four_themes\<close>, which contains \<open>txt_arogantni\<close> and
  is not classified into \<open>empathy_human_approach\<close>.
\<close>

theorem categorize_truncated_counterexample:
  "py_in txt_arogantni txt_four_themes
   \<and> categorize czech_lib txt_four_themes =
       [u ''communication_responsiveness'', u ''professionalism_competence'',
        u ''fees_value_transparency'']
   \<and> u ''empathy_human_approach'' \<notin> set (categorize czech_lib txt_four_themes)"
  by (simp add: categorize_eval)

theorem categorize_truncated_witness:
  "latin_tables czech_lib
   \<and> py_in txt_arogantni (u ''Velmi '' @ txt_arogantni @ u '' a drahota.'')
   \<and> length (filter (\<lambda>(cat, kws).
        matches czech_lib (norm_text czech_lib (u ''Velmi '' @ txt_arogantni @ u '' a drahota.'')) kws)
          (take 6 TAX)) < 3
   \<and> u ''empathy_human_approach''
       \<in> set (categorize czech_lib (u ''Velmi '' @ txt_arogantni @ u '' a drahota.''))"
proof -
  let ?T = "u ''Velmi '' @ txt_arogantni @ u '' a drahota.''"
  have h: "py_in txt_arogantni ?T"
    "length (filter (\<lambda>(cat, kws). matches czech_lib (norm_text czech_lib ?T) kws) (take 6 TAX)) < 3"
    by (simp_all add: categorize_eval)
  note T = categorize_truncated [OF latin_tables_czech_lib, of ?T]
  note iff = T [THEN conjunct2, THEN conjunct2, THEN conjunct2, THEN conjunct2, THEN conjunct2,
      rule_format]
  from iff [OF h(1)] h(2) have "u ''empathy_human_approach'' \<in> set (categorize czech_lib ?T)"
    by (rule iffD2)
  with latin_tables_czech_lib h show ?thesis by (intro conjI)
qed

section \<open>Text normalization\<close>






lemma dropWhile_allP: "\<forall>c\<in>set p. P c \<Longrightarrow> dropWhile P (p @ m) = dropWhile P m"
  by (simp add: dropWhile_append)






















end
